theory Spec2Isabelle
  imports Main "HOL-Library.Multiset"
begin

section \<open>Data model\<close>

text \<open>
  Modelled from the spec: the type \<open>Post\<close> is imported from \<open>contentlayer/generated\<close>,
  which the build step writes and which is not among the sources. The record has the
  attributes the spec's data model lists, which are also the ones the components read:
  title, date (an ISO-8601 string), description, url and an optional ordered list of tag
  labels. An absent \<open>tags\<close> field (\<open>undefined\<close>) is \<open>None\<close>.
\<close>

record Post =
  title :: string
  date :: string
  description :: string
  url :: string
  tags :: "string list option"

text \<open>
  The array \<open>allPosts\<close> of \<open>contentlayer/generated\<close> is a module-level array shared by
  every importer; it is the only mutable state the components can reach.
\<close>

record module_state =
  allPosts :: "Post list"

text \<open>
  What a component returns. \<open>Element\<close> is a host element (\<open>div\<close>, \<open>p\<close>, ...) or an
  element of a component that is imported from outside the sources (\<open>Link\<close>, \<open>Button\<close>,
  \<open>Github\<close>): its type name, its props in source order (a string, or a flag such as
  \<open>asChild\<close>), its children. \<open>PostCardElement k post\<close> is \<open><PostCard key={k} {...post} />\<close> and
  \<open>TagElement k t\<close> is \<open><Tag key={k} tag={t} />\<close>. \<open>JsFalse\<close> and \<open>JsUndefined\<close> are
  the values \<open>false\<close> and \<open>undefined\<close> in child position, which React does not display.
\<close>

datatype prop_value =
    Str string
  | Flag bool

datatype node =
    Element string "(string \<times> prop_value) list" "node list"
  | Text string
  | PostCardElement nat Post
  | TagElement nat string
  | JsFalse
  | JsUndefined

section \<open>Library functions the components call\<close>

text \<open>
  A JavaScript \<open>Date\<close> holds a time value: a number of milliseconds, or \<open>NaN\<close> for an
  invalid date. A JavaScript number returned by a comparator is an integer or \<open>NaN\<close>.
  In both types \<open>None\<close> is \<open>NaN\<close>.
\<close>

type_synonym Date = "int option"
type_synonym number = "int option"

text \<open>
  \<open>compareDesc\<close> of date-fns: \<open>diff = left.getTime() - right.getTime()\<close>; \<open>-1\<close> when
  \<open>diff > 0\<close>, \<open>1\<close> when \<open>diff < 0\<close>, otherwise \<open>diff\<close> itself, which is \<open>0\<close> or \<open>NaN\<close>.
\<close>

definition compareDesc :: "Date \<Rightarrow> Date \<Rightarrow> number" where
  "compareDesc dateLeft dateRight =
     (case (dateLeft, dateRight) of
        (Some l, Some r) \<Rightarrow>
          (let diff = l - r in
           if diff > 0 then Some (- 1) else if diff < 0 then Some 1 else Some diff)
      | _ \<Rightarrow> None)"

text \<open>
  \<open>Array.prototype.sort\<close> with a comparator. ECMAScript reads the comparator's result
  through \<open>SortCompare\<close>, which turns \<open>NaN\<close> into \<open>+0\<close>, and requires the sort to be
  stable. For a consistent comparator the stable sorted permutation is unique, so every
  conforming engine returns what this insertion sort returns. The array is sorted in
  place: the caller stores the result back.
\<close>

definition SortCompare :: "('a \<Rightarrow> 'a \<Rightarrow> number) \<Rightarrow> 'a \<Rightarrow> 'a \<Rightarrow> int" where
  "SortCompare comparefn x y = (case comparefn x y of None \<Rightarrow> 0 | Some v \<Rightarrow> v)"

fun sort_insert :: "('a \<Rightarrow> 'a \<Rightarrow> number) \<Rightarrow> 'a \<Rightarrow> 'a list \<Rightarrow> 'a list" where
  "sort_insert comparefn x [] = [x]"
| "sort_insert comparefn x (y # ys) =
     (if SortCompare comparefn x y \<le> 0 then x # y # ys
      else y # sort_insert comparefn x ys)"

fun Array_sort :: "('a \<Rightarrow> 'a \<Rightarrow> number) \<Rightarrow> 'a list \<Rightarrow> 'a list" where
  "Array_sort comparefn [] = []"
| "Array_sort comparefn (x # xs) = sort_insert comparefn x (Array_sort comparefn xs)"

text \<open>\<open>posts.map((post, idx) => ...)\<close>: the callback receives the element and its index.\<close>

fun map_idx :: "('a \<Rightarrow> nat \<Rightarrow> 'b) \<Rightarrow> nat \<Rightarrow> 'a list \<Rightarrow> 'b list" where
  "map_idx f i [] = []"
| "map_idx f i (x # xs) = f x i # map_idx f (Suc i) xs"

definition Array_map :: "('a \<Rightarrow> nat \<Rightarrow> 'b) \<Rightarrow> 'a list \<Rightarrow> 'b list" where
  "Array_map f xs = map_idx f 0 xs"

section \<open>The home page\<close>

text \<open>
  \<open>Home\<close> (the page component that imports \<open>allPosts\<close>). \<open>new_Date\<close> is the engine's
  \<open>new Date(string)\<close> read through \<open>getTime()\<close>; it is a parameter, since what a string
  parses to is decided by the JavaScript engine. The component sorts \<open>allPosts\<close> in
  place, so it returns the module state with the sorted array beside its element.
  \<open>Home_comparefn\<close> is the arrow function it passes to \<open>sort\<close>.
\<close>

definition Home_comparefn :: "(string \<Rightarrow> Date) \<Rightarrow> Post \<Rightarrow> Post \<Rightarrow> number" where
  "Home_comparefn new_Date a b = compareDesc (new_Date (date a)) (new_Date (date b))"

definition Home :: "(string \<Rightarrow> Date) \<Rightarrow> module_state \<Rightarrow> node \<times> module_state" where
  "Home new_Date s =
     (let posts = Array_sort (Home_comparefn new_Date) (allPosts s)
      in
      (Element ''div'' []
        [Element ''div'' [(''className'', Str ''space-y-7'')]
          [Element ''p'' []
            [Text ''Hello everyone, I'm Tuan. I'm a software engineer and I love to write about everything that I know. I hope my blog will bring useful knowledge to you. Thanks for visiting.''],
           Element ''p'' []
            [Text ''This's main current stack of my blog. I hope you will find it''],
           Element ''ul'' [(''className'', Str ''my-6 list-disc space-y-2 pl-4'')]
            [Element ''li'' []
              [Element ''Link'' [(''className'', Str ''link''), (''href'', Str ''#'')]
                [Text ''Backend Development'']],
             Element ''li'' []
              [Element ''Link'' [(''className'', Str ''link''), (''href'', Str ''#'')]
                [Text ''Devops & Cloud'']],
             Element ''li'' []
              [Element ''Link'' [(''className'', Str ''link''), (''href'', Str ''#'')]
                [Text ''Frontend Development'']],
             Element ''li'' []
              [Element ''Link'' [(''className'', Str ''link''), (''href'', Str ''#'')]
                [Text ''Mobile Development'']]],
           Element ''Button'' [(''asChild'', Flag True)]
            [Element ''a'' [(''href'', Str ''https://github.com/tuantoquq'')]
              [Element ''Github'' [(''className'', Str ''mr-1'')] [],
               Text '' Visit my profile!'']]],
         Element ''div''
          [(''className'',
            Str ''mt-10 space-y-12 border-t border-gray-200 pt-10 dark:border-gray-700'')]
          (Array_map (\<lambda>post idx. PostCardElement idx post) posts)],
       s\<lparr>allPosts := posts\<rparr>))"

section \<open>The post card and the tag chip\<close>

text \<open>
  \<open>format\<close> of date-fns throws \<open>RangeError: Invalid time value\<close> when \<open>parseISO\<close> gave
  an invalid date; no other exception can leave a component of the sources.
\<close>

datatype error = RangeError

text \<open>\<open>Tag\<close>: the chip, a \<open>div\<close> around a \<open>p\<close> that holds the label.\<close>

definition Tag :: "string \<Rightarrow> node" where
  "Tag tag =
     Element ''div''
       [(''className'', Str ''rounded-lg bg-green-500 p-1 text-sm font-medium text-white '')]
       [Element ''p'' [] [Text tag]]"

text \<open>
  \<open>PostCard\<close>. \<open>format_parseISO\<close> is \<open>\<lambda>s. format(parseISO(s), 'LLLL d, yyyy')\<close> of date-fns,
  \<open>None\<close> where it throws; it is a parameter, since the text depends on the time zone
  of the process. \<open>tags && tags.length > 0 && (...)\<close> is \<open>undefined\<close> for an absent
  list, \<open>false\<close> for an empty one and the tag row otherwise.
\<close>

definition PostCard :: "(string \<Rightarrow> string option) \<Rightarrow> Post \<Rightarrow> error + node" where
  "PostCard format_parseISO post =
     (let tags = Post.tags post in
      case format_parseISO (date post) of
        None \<Rightarrow> Inl RangeError
      | Some formatted \<Rightarrow>
          Inr (Element ''article''
                [(''className'', Str ''flex flex-col items-start justify-between'')]
                [Element ''div'' [(''className'', Str ''flex items-center gap-x-4 text-xs'')]
                  [Element ''time'' [(''dateTime'', Str (date post))] [Text formatted]],
                 Element ''div'' [(''className'', Str ''group relative'')]
                  [Element ''h3''
                    [(''className'', Str ''mt-3 text-lg font-semibold leading-6'')]
                    [Element ''Link'' [(''className'', Str ''link''), (''href'', Str (url post))]
                      [Element ''span'' [(''className'', Str ''absolute inset-0'')] [],
                       Text (title post)]],
                   (case tags of
                      None \<Rightarrow> JsUndefined
                    | Some ts \<Rightarrow>
                        if length ts > 0
                        then Element ''div'' [(''className'', Str ''mt-5 flex flex-row gap-2'')]
                               (Array_map (\<lambda>tag idx. TagElement idx tag) ts)
                        else JsFalse),
                   Element ''p'' [(''className'', Str ''mt-5 line-clamp-3 text-sm leading-6'')]
                    [Text (description post)]]]))"

section \<open>Observations on elements\<close>

text \<open>The \<open>PostCard\<close> elements of a tree, in document order, each with its key.\<close>

fun PostCards_in :: "node \<Rightarrow> (nat \<times> Post) list" where
  "PostCards_in (PostCardElement k p) = [(k, p)]"
| "PostCards_in (Element t ps cs) = concat (map PostCards_in cs)"
| "PostCards_in _ = []"

text \<open>The \<open>Tag\<close> elements of a tree, in document order, each with its key.\<close>

fun Tags_in :: "node \<Rightarrow> (nat \<times> string) list" where
  "Tags_in (TagElement k t) = [(k, t)]"
| "Tags_in (Element t ps cs) = concat (map Tags_in cs)"
| "Tags_in _ = []"

text \<open>The elements of a tree that carry a given \<open>className\<close>, in document order.\<close>

fun find_class :: "string \<Rightarrow> node \<Rightarrow> node list" where
  "find_class c (Element t ps cs) =
     (if map_of ps ''className'' = Some (Str c) then [Element t ps cs] else [])
     @ concat (map (find_class c) cs)"
| "find_class c _ = []"

text \<open>The text a tree shows: its \<open>Text\<close> leaves, concatenated.\<close>

fun text_of :: "node \<Rightarrow> string" where
  "text_of (Text t) = t"
| "text_of (Element t ps cs) = concat (map text_of cs)"
| "text_of _ = []"

text \<open>
  What React displays of a tree: children that are \<open>false\<close> or \<open>undefined\<close> produce
  nothing, at every depth.
\<close>

fun displayed :: "node \<Rightarrow> node" where
  "displayed (Element t ps cs) =
     Element t ps
       (concat (map (\<lambda>c. if c = JsFalse \<or> c = JsUndefined then [] else [displayed c]) cs))"
| "displayed n = n"

text \<open>JavaScript's \<open>>=\<close> on two time values: false as soon as one is \<open>NaN\<close>.\<close>

definition time_ge :: "Date \<Rightarrow> Date \<Rightarrow> bool" where
  "time_ge a b = (case (a, b) of (Some x, Some y) \<Rightarrow> x \<ge> y | _ \<Rightarrow> False)"

text \<open>Post \<open>a\<close> may stand before post \<open>b\<close>: the date of \<open>a\<close> is \<open>>=\<close> the date of \<open>b\<close>.\<close>

definition not_later :: "(string \<Rightarrow> Date) \<Rightarrow> Post \<Rightarrow> Post \<Rightarrow> bool" where
  "not_later new_Date a b = time_ge (new_Date (date a)) (new_Date (date b))"

section \<open>An instance of the date functions: the date-only form\<close>

text \<open>
  The general results take \<open>new Date\<close> and \<open>format(parseISO(_))\<close> as parameters. For
  the example dates the two functions are given here on strings of the date-only form
  \<open>YYYY-MM-DD\<close> that name a day of the calendar: \<open>new Date\<close> reads such a string as
  midnight UTC, \<open>parseISO\<close> as local midnight, which \<open>format\<close> prints as that calendar
  day. The instance is used at the example dates only. It is not the engine on other
  strings: it gives \<open>None\<close> for a full timestamp and for a day past the end of its month,
  which an engine may accept, and it ignores days that a time zone skipped.
\<close>

definition digit :: "char \<Rightarrow> nat option" where
  "digit c = (let n = (of_char c :: nat) in if 48 \<le> n \<and> n \<le> 57 then Some (n - 48) else None)"

fun digits :: "nat \<Rightarrow> string \<Rightarrow> nat option" where
  "digits acc [] = Some acc"
| "digits acc (c # cs) =
     (case digit c of None \<Rightarrow> None | Some d \<Rightarrow> digits (10 * acc + d) cs)"

definition leap_year :: "nat \<Rightarrow> bool" where
  "leap_year y =
     (if y mod 400 = 0 then True else if y mod 100 = 0 then False else y mod 4 = 0)"

definition days_in_month :: "nat \<Rightarrow> nat \<Rightarrow> nat" where
  "days_in_month y m =
     (if m = 2 then (if leap_year y then 29 else 28)
      else if m = 4 \<or> m = 6 \<or> m = 9 \<or> m = 11 then 30 else 31)"

definition calendar_date :: "string \<Rightarrow> (nat \<times> nat \<times> nat) option" where
  "calendar_date s =
     (if length s = 10 \<and> s ! 4 = CHR ''-'' \<and> s ! 7 = CHR ''-'' then
        (case (digits 0 (take 4 s), digits 0 (take 2 (drop 5 s)), digits 0 (drop 8 s)) of
           (Some y, Some m, Some d) \<Rightarrow>
             if 1 \<le> m \<and> m \<le> 12 \<and> 1 \<le> d \<and> d \<le> days_in_month y m
             then Some (y, m, d) else None
         | _ \<Rightarrow> None)
      else None)"

text \<open>Days from 1970-01-01 to a day of the proleptic Gregorian calendar.\<close>

definition days_from_epoch :: "nat \<Rightarrow> nat \<Rightarrow> nat \<Rightarrow> int" where
  "days_from_epoch y m d =
     (let y' = int y - (if m \<le> 2 then 1 else 0);
          era = y' div 400;
          yoe = y' - era * 400;
          doy = (153 * int ((m + 9) mod 12) + 2) div 5 + int d - 1;
          doe = yoe * 365 + yoe div 4 - yoe div 100 + doy
      in era * 146097 + doe - 719468)"

definition iso_new_Date :: "string \<Rightarrow> Date" where
  "iso_new_Date s =
     (case calendar_date s of
        None \<Rightarrow> None
      | Some (y, m, d) \<Rightarrow> Some (86400000 * days_from_epoch y m d))"

definition month_name :: "nat \<Rightarrow> string" where
  "month_name m =
     [''January'', ''February'', ''March'', ''April'', ''May'', ''June'', ''July'',
      ''August'', ''September'', ''October'', ''November'', ''December''] ! (m - 1)"

definition iso_format_parseISO :: "string \<Rightarrow> string option" where
  "iso_format_parseISO s =
     (case calendar_date s of
        None \<Rightarrow> None
      | Some (y, m, d) \<Rightarrow>
          Some (month_name m @ '' '' @ (if s ! 8 = CHR ''0'' then drop 9 s else drop 8 s)
                @ '', '' @ take 4 s))"

section \<open>Example inputs\<close>

definition post_new_year :: Post where
  "post_new_year =
     \<lparr>title = ''New year'', date = ''2024-01-01'', description = ''Plans for the year'',
      url = ''/posts/new-year'', tags = Some [''backend'', ''devops'']\<rparr>"

definition post_midsummer :: Post where
  "post_midsummer =
     \<lparr>title = ''Midsummer'', date = ''2024-06-15'', description = ''Half-time notes'',
      url = ''/posts/midsummer'', tags = Some []\<rparr>"

definition post_year_end :: Post where
  "post_year_end =
     \<lparr>title = ''Year end'', date = ''2023-12-31'', description = ''Looking back'',
      url = ''/posts/year-end'', tags = None\<rparr>"

definition three_posts :: module_state where
  "three_posts = \<lparr>allPosts = [post_new_year, post_midsummer, post_year_end]\<rparr>"

definition no_posts :: module_state where
  "no_posts = \<lparr>allPosts = []\<rparr>"

section \<open>The sort: permutation, order, fixed point\<close>

lemma mset_sort_insert: "mset (sort_insert c x xs) = add_mset x (mset xs)"
  by (induction xs) auto

lemma mset_Array_sort: "mset (Array_sort c xs) = mset xs"
  by (induction xs) (auto simp: mset_sort_insert)

lemma set_sort_insert: "set (sort_insert c x xs) = insert x (set xs)"
  by (induction xs) auto

lemma set_Array_sort: "set (Array_sort c xs) = set xs"
  by (induction xs) (auto simp: set_sort_insert)

lemma length_Array_sort: "length (Array_sort c xs) = length xs"
  using mset_Array_sort [of c xs] by (metis size_mset)

lemma upt_Suc_front: "[i..<i + Suc n] = i # [Suc i..<Suc i + n]"
  by (subst upt_rec) simp

lemma map_idx_zip: "map_idx f i xs = map (\<lambda>(k, x). f x k) (zip [i..<i + length xs] xs)"
proof (induction xs arbitrary: i)
  case Nil
  show ?case by simp
next
  case (Cons x xs)
  have "[i..<i + length (x # xs)] = i # [Suc i..<Suc i + length xs]"
    using upt_Suc_front [of i "length xs"] by simp
  then show ?case using Cons.IH [of "Suc i"] by simp
qed

lemma PostCards_in_pairs:
  "concat (map (PostCards_in \<circ> (\<lambda>(k, p). PostCardElement k p)) ps) = ps"
  by (induction ps) auto

lemma Tags_in_pairs:
  "concat (map (Tags_in \<circ> (\<lambda>(k, t). TagElement k t)) ps) = ps"
  by (induction ps) auto

lemma PostCards_in_map_idx:
  "concat (map PostCards_in (map_idx (\<lambda>post idx. PostCardElement idx post) i xs))
     = zip [i..<i + length xs] xs"
  by (simp add: map_idx_zip PostCards_in_pairs Tags_in_pairs)

lemma Tags_in_map_idx:
  "concat (map Tags_in (map_idx (\<lambda>tag idx. TagElement idx tag) i xs))
     = zip [i..<i + length xs] xs"
  by (simp add: map_idx_zip PostCards_in_pairs Tags_in_pairs)

lemma PostCards_in_Home:
  "PostCards_in (fst (Home nd s))
     = zip [0..<length (allPosts s)] (Array_sort (Home_comparefn nd) (allPosts s))"
  by (simp add: Home_def Let_def Array_map_def PostCards_in_map_idx length_Array_sort)

lemma allPosts_Home:
  "allPosts (snd (Home nd s)) = Array_sort (Home_comparefn nd) (allPosts s)"
  by (simp add: Home_def Let_def)

lemma SortCompare_Home_comparefn:
  "nd (date a) = Some x \<Longrightarrow> nd (date b) = Some y \<Longrightarrow>
   (SortCompare (Home_comparefn nd) a b \<le> 0) = (y \<le> x)"
  by (simp add: SortCompare_def Home_comparefn_def compareDesc_def Let_def)

lemma not_later_trans:
  "not_later nd a b \<Longrightarrow> not_later nd b c \<Longrightarrow> not_later nd a c"
  by (auto simp: not_later_def time_ge_def split: option.splits)

lemma sorted_sort_insert:
  assumes "\<forall>p \<in> set (x # xs). nd (date p) \<noteq> None"
    and "sorted_wrt (not_later nd) xs"
  shows "sorted_wrt (not_later nd) (sort_insert (Home_comparefn nd) x xs)"
  using assms
proof (induction xs)
  case Nil
  show ?case by simp
next
  case (Cons y ys)
  obtain tx ty where t: "nd (date x) = Some tx" "nd (date y) = Some ty"
    using Cons.prems(1) by auto
  show ?case
  proof (cases "ty \<le> tx")
    case True
    then have xy: "not_later nd x y" using t by (simp add: not_later_def time_ge_def)
    have "\<forall>z \<in> set ys. not_later nd x z"
      using Cons.prems(2) xy not_later_trans by auto
    then show ?thesis
      using True t xy Cons.prems(2) by (simp add: SortCompare_Home_comparefn)
  next
    case False
    then have yx: "not_later nd y x" using t by (simp add: not_later_def time_ge_def)
    have ih: "sorted_wrt (not_later nd) (sort_insert (Home_comparefn nd) x ys)"
      using Cons by simp
    show ?thesis
      using False t yx ih Cons.prems(2)
      by (auto simp: SortCompare_Home_comparefn set_sort_insert)
  qed
qed

lemma sorted_Array_sort:
  "\<forall>p \<in> set xs. nd (date p) \<noteq> None \<Longrightarrow>
   sorted_wrt (not_later nd) (Array_sort (Home_comparefn nd) xs)"
  by (induction xs) (simp_all add: sorted_sort_insert set_Array_sort)

lemma sort_insert_front:
  assumes "\<forall>p \<in> set (x # xs). nd (date p) \<noteq> None" and "\<forall>y \<in> set xs. not_later nd x y"
  shows "sort_insert (Home_comparefn nd) x xs = x # xs"
proof (cases xs)
  case Nil
  then show ?thesis by simp
next
  case (Cons y ys)
  obtain tx ty where t: "nd (date x) = Some tx" "nd (date y) = Some ty"
    using assms(1) Cons by auto
  have "not_later nd x y" using assms(2) Cons by simp
  then have "ty \<le> tx" using t by (simp add: not_later_def time_ge_def)
  then show ?thesis using Cons t by (simp add: SortCompare_Home_comparefn)
qed

lemma Array_sort_sorted_id:
  "\<forall>p \<in> set xs. nd (date p) \<noteq> None \<Longrightarrow> sorted_wrt (not_later nd) xs \<Longrightarrow>
   Array_sort (Home_comparefn nd) xs = xs"
  by (induction xs) (simp_all add: sort_insert_front)

lemma Array_sort_idem:
  assumes "\<forall>p \<in> set xs. nd (date p) \<noteq> None"
  shows "Array_sort (Home_comparefn nd) (Array_sort (Home_comparefn nd) xs)
           = Array_sort (Home_comparefn nd) xs"
  using assms by (intro Array_sort_sorted_id sorted_Array_sort) (simp_all add: set_Array_sort)

section \<open>The sort is the stable sort by descending time\<close>

text \<open>
  When every date parses, the insertion above is insertion by the key \<open>- time\<close>, so
  \<open>Array_sort\<close> is the library's stable \<open>sort_key\<close>, and any list that is a permutation
  of the input, in descending order of time and with equal times in input order, is its
  result: the order does not depend on the engine's sorting algorithm.
\<close>

lemma sort_insert_insort_key:
  assumes "\<forall>p \<in> set (x # xs). nd (date p) \<noteq> None"
  shows "sort_insert (Home_comparefn nd) x xs = insort_key (\<lambda>p. - the (nd (date p))) x xs"
  using assms
proof (induction xs)
  case Nil
  show ?case by simp
next
  case (Cons y ys)
  obtain tx ty where t: "nd (date x) = Some tx" "nd (date y) = Some ty"
    using Cons.prems by auto
  have "sort_insert (Home_comparefn nd) x ys = insort_key (\<lambda>p. - the (nd (date p))) x ys"
    using Cons by simp
  then show ?case using t by (simp add: SortCompare_Home_comparefn)
qed

lemma Array_sort_sort_key:
  "\<forall>p \<in> set xs. nd (date p) \<noteq> None \<Longrightarrow>
   Array_sort (Home_comparefn nd) xs = sort_key (\<lambda>p. - the (nd (date p))) xs"
  by (induction xs) (simp_all add: sort_insert_insort_key set_Array_sort)

lemma Array_sort_unique:
  assumes "\<forall>p \<in> set xs. nd (date p) \<noteq> None"
    and "mset ys = mset xs"
    and "sorted_wrt (not_later nd) ys"
    and "\<And>t. filter (\<lambda>p. nd (date p) = Some t) ys = filter (\<lambda>p. nd (date p) = Some t) xs"
  shows "Array_sort (Home_comparefn nd) xs = ys"
proof -
  let ?f = "\<lambda>p. - the (nd (date p))"
  have sety: "set ys = set xs" using assms(2) by (metis set_mset_mset)
  have valid: "\<And>p. p \<in> set xs \<Longrightarrow> \<exists>t. nd (date p) = Some t" using assms(1) by auto
  have stab: "\<And>k. k \<in> set ys \<Longrightarrow> filter (\<lambda>p. ?f k = ?f p) ys = filter (\<lambda>p. ?f k = ?f p) xs"
  proof -
    fix k assume k: "k \<in> set ys"
    then obtain t where t: "nd (date k) = Some t" using valid sety by auto
    have eqv: "\<And>p. p \<in> set xs \<Longrightarrow> (?f k = ?f p) = (nd (date p) = Some t)"
    proof -
      fix p assume "p \<in> set xs"
      then obtain u where "nd (date p) = Some u" using valid by auto
      then show "(?f k = ?f p) = (nd (date p) = Some t)" using t by auto
    qed
    have "filter (\<lambda>p. ?f k = ?f p) ys = filter (\<lambda>p. nd (date p) = Some t) ys"
      by (rule filter_cong) (use eqv sety in auto)
    moreover have "filter (\<lambda>p. ?f k = ?f p) xs = filter (\<lambda>p. nd (date p) = Some t) xs"
      by (rule filter_cong) (use eqv in auto)
    ultimately show "filter (\<lambda>p. ?f k = ?f p) ys = filter (\<lambda>p. ?f k = ?f p) xs"
      using assms(4) by simp
  qed
  have "sorted_wrt (\<lambda>a b. ?f a \<le> ?f b) ys"
  proof (rule sorted_wrt_mono_rel [OF _ assms(3)])
    fix a b assume "a \<in> set ys" "b \<in> set ys" "not_later nd a b"
    then show "?f a \<le> ?f b"
      by (auto simp: not_later_def time_ge_def split: option.splits)
  qed
  then have srt: "sorted (map ?f ys)" by (simp add: sorted_map)
  have "sort_key ?f xs = ys"
    using assms(2) stab srt by (rule properties_for_sort_key)
  then show ?thesis using assms(1) by (simp add: Array_sort_sort_key)
qed

section \<open>The date instance on the example dates\<close>

lemma iso_new_Date_examples:
  "iso_new_Date ''2024-01-01'' = Some 1704067200000"
  "iso_new_Date ''2024-06-15'' = Some 1718409600000"
  "iso_new_Date ''2023-12-31'' = Some 1703980800000"
  by code_simp+

lemma iso_format_parseISO_examples:
  "iso_format_parseISO ''2024-01-01'' = Some ''January 1, 2024''"
  "iso_format_parseISO ''2024-06-15'' = Some ''June 15, 2024''"
  "iso_format_parseISO ''2023-12-31'' = Some ''December 31, 2023''"
  by code_simp+

section \<open>Home page listing\<close>

text \<open>
  Claim C1. For every list of posts whose dates parse (the invariant of the data model),
  the home page holds exactly one card per post: the keys of the cards are \<open>0, ..., n - 1\<close>
  for \<open>n\<close> posts and the posts on the cards are a permutation of the input. The cards are
  in descending order of publication date: for any two cards, the first at position \<open>i\<close>
  and the second at a later position \<open>j\<close>, the date of the first is \<open>>=\<close> the date of the
  second.
\<close>

theorem Home_cards_by_date_desc:
  assumes "\<forall>p \<in> set (allPosts s). new_Date (date p) \<noteq> None"
  shows "map fst (PostCards_in (fst (Home new_Date s))) = [0..<length (allPosts s)]
       \<and> mset (map snd (PostCards_in (fst (Home new_Date s)))) = mset (allPosts s)
       \<and> (\<forall>i j. i < j \<and> j < length (PostCards_in (fst (Home new_Date s))) \<longrightarrow>
            time_ge (new_Date (date (snd (PostCards_in (fst (Home new_Date s)) ! i))))
                    (new_Date (date (snd (PostCards_in (fst (Home new_Date s)) ! j)))))"
proof -
  let ?sorted = "Array_sort (Home_comparefn new_Date) (allPosts s)"
  have len: "length ?sorted = length (allPosts s)" by (rule length_Array_sort)
  have keys: "map fst (PostCards_in (fst (Home new_Date s))) = [0..<length (allPosts s)]"
    by (simp add: PostCards_in_Home len)
  have posts: "map snd (PostCards_in (fst (Home new_Date s))) = ?sorted"
    by (simp add: PostCards_in_Home len)
  have "sorted_wrt (not_later new_Date) ?sorted"
    using assms by (rule sorted_Array_sort)
  then have ord: "\<forall>i j. i < j \<and> j < length ?sorted \<longrightarrow>
      time_ge (new_Date (date (?sorted ! i))) (new_Date (date (?sorted ! j)))"
    by (simp add: sorted_wrt_iff_nth_less not_later_def)
  have nth: "\<And>i. i < length ?sorted \<Longrightarrow>
      snd (PostCards_in (fst (Home new_Date s)) ! i) = ?sorted ! i"
    by (simp add: PostCards_in_Home len)
  have n: "length (PostCards_in (fst (Home new_Date s))) = length ?sorted"
    by (simp add: PostCards_in_Home len)
  show ?thesis
    using keys posts ord nth n by (simp add: mset_Array_sort)
qed

theorem Home_cards_by_date_desc_witness:
  "list_all (\<lambda>p. iso_new_Date (date p) \<noteq> None) (allPosts three_posts)
   \<and> map fst (PostCards_in (fst (Home iso_new_Date three_posts))) = [0, 1, 2]
   \<and> mset (map snd (PostCards_in (fst (Home iso_new_Date three_posts))))
       = mset [post_new_year, post_midsummer, post_year_end]
   \<and> time_ge (iso_new_Date (date (snd (PostCards_in (fst (Home iso_new_Date three_posts)) ! 0))))
              (iso_new_Date (date (snd (PostCards_in (fst (Home iso_new_Date three_posts)) ! 2))))"
proof -
  let ?cards = "PostCards_in (fst (Home iso_new_Date three_posts))"
  have h: "\<forall>p \<in> set (allPosts three_posts). iso_new_Date (date p) \<noteq> None"
    by (simp add: three_posts_def post_new_year_def post_midsummer_def post_year_end_def
        iso_new_Date_examples)
  note r = Home_cards_by_date_desc [OF h]
  have keys: "map fst ?cards = [0, 1, 2]"
    using r by (simp add: three_posts_def)
  have "length (map fst ?cards) = 3" by (simp only: keys) simp
  then have len: "length ?cards = 3" by simp
  have ord: "time_ge (iso_new_Date (date (snd (?cards ! 0))))
                     (iso_new_Date (date (snd (?cards ! 2))))"
    using r len by simp
  show ?thesis
    using h keys ord r by (simp add: three_posts_def list_all_iff)
qed

text \<open>
  Claim C3. When the list of posts is empty, the home page returns its element (the
  component has no failing branch), the element holds no card, the listing \<open>div\<close> has no
  children, and the module state is as before.
\<close>

theorem Home_no_posts:
  assumes "allPosts s = []"
  shows "\<exists>page. Home new_Date s = (page, s)
       \<and> PostCards_in page = []
       \<and> find_class ''mt-10 space-y-12 border-t border-gray-200 pt-10 dark:border-gray-700'' page
           = [Element ''div''
               [(''className'',
                 Str ''mt-10 space-y-12 border-t border-gray-200 pt-10 dark:border-gray-700'')]
               []]"
  using assms by (simp add: Home_def Array_map_def)

theorem Home_no_posts_witness:
  "allPosts no_posts = []
   \<and> (\<exists>page. Home iso_new_Date no_posts = (page, no_posts) \<and> PostCards_in page = [])"
proof -
  have h: "allPosts no_posts = []" by (simp add: no_posts_def)
  show ?thesis using h Home_no_posts [OF h, of iso_new_Date] by blast
qed

text \<open>
  Claim C4. The home page listing neither changes, adds nor removes a post record: the
  array \<open>allPosts\<close> after the call is a permutation of the array before it, so it holds
  the same records with the same fields, each as often as before, and the set of posts is
  the same. The posts on the cards are these records too.
\<close>

theorem Home_keeps_posts:
  "mset (allPosts (snd (Home new_Date s))) = mset (allPosts s)
   \<and> set (allPosts (snd (Home new_Date s))) = set (allPosts s)
   \<and> mset (map snd (PostCards_in (fst (Home new_Date s)))) = mset (allPosts s)"
  by (simp add: allPosts_Home PostCards_in_Home mset_Array_sort set_Array_sort
      length_Array_sort)

text \<open>
  Claim C6. Three posts dated 2024-01-01, 2024-06-15 and 2023-12-31, in this input order,
  are listed in the order 2024-06-15, 2024-01-01, 2023-12-31: the second, the first, the
  third post, under the keys 0, 1, 2.
\<close>

theorem Home_three_dates:
  assumes "allPosts s = [a, b, c]"
    and "date a = ''2024-01-01''" and "date b = ''2024-06-15''" and "date c = ''2023-12-31''"
  shows "PostCards_in (fst (Home iso_new_Date s)) = [(0, b), (1, a), (2, c)]
       \<and> map (date \<circ> snd) (PostCards_in (fst (Home iso_new_Date s)))
           = [''2024-06-15'', ''2024-01-01'', ''2023-12-31'']"
  using assms
  by (simp add: PostCards_in_Home Home_comparefn_def compareDesc_def SortCompare_def
      iso_new_Date_examples Let_def)

theorem Home_three_dates_witness:
  "allPosts three_posts = [post_new_year, post_midsummer, post_year_end]
   \<and> date post_new_year = ''2024-01-01'' \<and> date post_midsummer = ''2024-06-15''
   \<and> date post_year_end = ''2023-12-31''
   \<and> PostCards_in (fst (Home iso_new_Date three_posts))
       = [(0, post_midsummer), (1, post_new_year), (2, post_year_end)]"
proof -
  have a: "allPosts three_posts = [post_new_year, post_midsummer, post_year_end]"
    by (simp add: three_posts_def)
  have d1: "date post_new_year = ''2024-01-01''" by (simp add: post_new_year_def)
  have d2: "date post_midsummer = ''2024-06-15''" by (simp add: post_midsummer_def)
  have d3: "date post_year_end = ''2023-12-31''" by (simp add: post_year_end_def)
  show ?thesis using a d1 d2 d3 Home_three_dates [OF a d1 d2 d3] by simp
qed

text \<open>
  Claim C10. The listing is idempotent on posts whose dates parse: the home page called on
  the module state that a first call left behind returns the same element and the same
  state as the first call, so sorting the sorted array changes nothing.
\<close>

theorem Home_idempotent:
  assumes "\<forall>p \<in> set (allPosts s). new_Date (date p) \<noteq> None"
  shows "Home new_Date (snd (Home new_Date s)) = Home new_Date s"
proof -
  have "Array_sort (Home_comparefn new_Date) (Array_sort (Home_comparefn new_Date) (allPosts s))
          = Array_sort (Home_comparefn new_Date) (allPosts s)"
    using assms by (rule Array_sort_idem)
  then show ?thesis by (simp add: Home_def Let_def)
qed

theorem Home_idempotent_witness:
  "list_all (\<lambda>p. iso_new_Date (date p) \<noteq> None) (allPosts three_posts)
   \<and> Home iso_new_Date (snd (Home iso_new_Date three_posts)) = Home iso_new_Date three_posts"
proof -
  have h: "\<forall>p \<in> set (allPosts three_posts). iso_new_Date (date p) \<noteq> None"
    by (simp add: three_posts_def post_new_year_def post_midsummer_def post_year_end_def
        iso_new_Date_examples)
  show ?thesis using h Home_idempotent [OF h] by (simp add: list_all_iff)
qed

section \<open>Post card\<close>

text \<open>
  Claim C2. For a post whose date formats, the card holds the tag row if and only if the
  tag list is present and non-empty. With \<open>n \<ge> 1\<close> tags the row is the single \<open>div\<close> of
  that class, its children are exactly the \<open>n\<close> tag chips with keys \<open>0, ..., n - 1\<close>, in the
  order of the tag list, and the labels the chips show are the tags in that order.
\<close>

theorem PostCard_tag_row:
  assumes "format_parseISO (date post) \<noteq> None"
  shows "\<exists>card. PostCard format_parseISO post = Inr card
       \<and> (find_class ''mt-5 flex flex-row gap-2'' card \<noteq> []
            \<longleftrightarrow> (\<exists>ts. tags post = Some ts \<and> ts \<noteq> []))
       \<and> (\<forall>ts. tags post = Some ts \<and> ts \<noteq> [] \<longrightarrow>
            find_class ''mt-5 flex flex-row gap-2'' card
              = [Element ''div'' [(''className'', Str ''mt-5 flex flex-row gap-2'')]
                  (map (\<lambda>(k, t). TagElement k t) (zip [0..<length ts] ts))]
            \<and> Tags_in card = zip [0..<length ts] ts
            \<and> map (\<lambda>(k, t). text_of (Tag t)) (Tags_in card) = ts)"
proof -
  obtain formatted where f: "format_parseISO (date post) = Some formatted"
    using assms by auto
  have labels: "\<And>ts :: string list. map (\<lambda>(k, t). text_of (Tag t)) (zip [0..<length ts] ts) = ts"
  proof -
    fix ts :: "string list"
    have "map (\<lambda>(k, t). text_of (Tag t)) (zip [0..<length ts] ts)
            = map snd (zip [0..<length ts] ts)"
      by (rule map_cong) (auto simp: Tag_def)
    then show "map (\<lambda>(k, t). text_of (Tag t)) (zip [0..<length ts] ts) = ts" by simp
  qed
  show ?thesis
  proof (cases "tags post")
    case None
    then show ?thesis using f by (simp add: PostCard_def)
  next
    case (Some ts)
    show ?thesis
    proof (cases "ts = []")
      case True
      then show ?thesis using f Some by (simp add: PostCard_def)
    next
      case False
      then show ?thesis
        using f Some labels [of ts]
        by (auto simp: PostCard_def Array_map_def map_idx_zip Tags_in_pairs)
    qed
  qed
qed

theorem PostCard_tag_row_witness:
  "iso_format_parseISO (date post_new_year) \<noteq> None
   \<and> (\<exists>card. PostCard iso_format_parseISO post_new_year = Inr card
        \<and> Tags_in card = [(0, ''backend''), (1, ''devops'')])"
proof -
  have h: "iso_format_parseISO (date post_new_year) \<noteq> None"
    by (simp add: post_new_year_def iso_format_parseISO_examples)
  have t: "tags post_new_year = Some [''backend'', ''devops'']"
    by (simp add: post_new_year_def)
  show ?thesis
    using h t PostCard_tag_row [of iso_format_parseISO post_new_year] by auto
qed

text \<open>
  Claim C7. A post with the tag list \<open>["backend", "devops"]\<close> gets exactly two tag chips,
  the first labelled \<open>backend\<close> and the second labelled \<open>devops\<close>.
\<close>

theorem PostCard_backend_devops:
  assumes "tags post = Some [''backend'', ''devops'']"
    and "format_parseISO (date post) \<noteq> None"
  shows "\<exists>card. PostCard format_parseISO post = Inr card
       \<and> Tags_in card = [(0, ''backend''), (1, ''devops'')]
       \<and> map (\<lambda>(k, t). Tag t) (Tags_in card)
           = [Element ''div''
                [(''className'',
                  Str ''rounded-lg bg-green-500 p-1 text-sm font-medium text-white '')]
                [Element ''p'' [] [Text ''backend'']],
              Element ''div''
                [(''className'',
                  Str ''rounded-lg bg-green-500 p-1 text-sm font-medium text-white '')]
                [Element ''p'' [] [Text ''devops'']]]"
proof -
  obtain formatted where f: "format_parseISO (date post) = Some formatted"
    using assms(2) by auto
  show ?thesis
    using f assms(1) by (simp add: PostCard_def Array_map_def Tag_def)
qed

theorem PostCard_backend_devops_witness:
  "tags post_new_year = Some [''backend'', ''devops'']
   \<and> iso_format_parseISO (date post_new_year) \<noteq> None
   \<and> (\<exists>card. PostCard iso_format_parseISO post_new_year = Inr card
        \<and> Tags_in card = [(0, ''backend''), (1, ''devops'')])"
proof -
  have t: "tags post_new_year = Some [''backend'', ''devops'']"
    by (simp add: post_new_year_def)
  have h: "iso_format_parseISO (date post_new_year) \<noteq> None"
    by (simp add: post_new_year_def iso_format_parseISO_examples)
  show ?thesis
    using t h PostCard_backend_devops [of post_new_year iso_format_parseISO] by blast
qed

text \<open>
  Claim C9. For a post whose \<open>tags\<close> field is absent, what the card displays is what it
  displays for the same post with an empty tag list. When the date formats, the card is
  returned without error, it holds no tag row and no chip, and it displays the date, the
  linked title and the description.
\<close>

theorem PostCard_tags_absent:
  assumes "tags post = None"
  shows "map_sum id displayed (PostCard format_parseISO post)
           = map_sum id displayed (PostCard format_parseISO (post\<lparr>tags := Some []\<rparr>))
       \<and> (\<forall>formatted. format_parseISO (date post) = Some formatted \<longrightarrow>
            (\<exists>card. PostCard format_parseISO post = Inr card
               \<and> find_class ''mt-5 flex flex-row gap-2'' card = []
               \<and> Tags_in card = []
               \<and> displayed card =
                   Element ''article''
                     [(''className'', Str ''flex flex-col items-start justify-between'')]
                     [Element ''div'' [(''className'', Str ''flex items-center gap-x-4 text-xs'')]
                       [Element ''time'' [(''dateTime'', Str (date post))] [Text formatted]],
                      Element ''div'' [(''className'', Str ''group relative'')]
                       [Element ''h3''
                         [(''className'', Str ''mt-3 text-lg font-semibold leading-6'')]
                         [Element ''Link''
                           [(''className'', Str ''link''), (''href'', Str (url post))]
                           [Element ''span'' [(''className'', Str ''absolute inset-0'')] [],
                            Text (title post)]],
                        Element ''p''
                         [(''className'', Str ''mt-5 line-clamp-3 text-sm leading-6'')]
                         [Text (description post)]]]))"
  using assms by (cases "format_parseISO (date post)") (simp_all add: PostCard_def)

theorem PostCard_tags_absent_witness:
  "tags post_year_end = None
   \<and> (\<exists>card. PostCard iso_format_parseISO post_year_end = Inr card
        \<and> find_class ''mt-5 flex flex-row gap-2'' card = [] \<and> Tags_in card = [])"
proof -
  have t: "tags post_year_end = None" by (simp add: post_year_end_def)
  have f: "iso_format_parseISO (date post_year_end) = Some ''December 31, 2023''"
    by (simp add: post_year_end_def iso_format_parseISO_examples)
  show ?thesis
    using t f PostCard_tags_absent [OF t, of iso_format_parseISO] by blast
qed

end
